theory Spec2Isabelle
  imports Main "HOL-Library.Word"
begin

section \<open>Broker configuration: the replication channel\<close>

text \<open>
  \<^verbatim>\<open>config/broker.go\<close>: \<^verbatim>\<open>ReplicationChannel\<close> holds the size limit of a page
  file in megabytes as an \<^verbatim>\<open>int64\<close>. Only the fields that
  \<^verbatim>\<open>GetDataSizeLimit\<close> and \<^verbatim>\<open>BufferSizeInBytes\<close> read are numbers; the durations
  are kept as their nanosecond counts.
\<close>

type_synonym int64 = "64 word"
type_synonym uint32 = "32 word"
type_synonym uint64 = "64 word"

record ReplicationChannel =
  Dir :: string
  DataSizeLimit :: int64
  RemoveTaskInterval :: int64
  ReportInterval :: int64
  CheckFlushInterval :: int64
  FlushInterval :: int64
  BufferSize :: int64

text \<open>
  \<^verbatim>\<open>func (rc *ReplicationChannel) GetDataSizeLimit() int64\<close>: the comparisons are
  Go's signed comparisons on \<^verbatim>\<open>int64\<close>, the product is Go's wrapping product.
\<close>

definition GetDataSizeLimit :: "'a ReplicationChannel_scheme \<Rightarrow> int64" where
  "GetDataSizeLimit rc =
     (if DataSizeLimit rc \<le>s 1 then 1024 * 1024
      else if 1024 \<le>s DataSizeLimit rc then 1024 * 1024 * 1024
      else DataSizeLimit rc * 1024 * 1024)"

definition BufferSizeInBytes :: "'a ReplicationChannel_scheme \<Rightarrow> int64" where
  "BufferSizeInBytes rc = BufferSize rc"

section \<open>Errors\<close>

text \<open>
  Go errors as values. \<^verbatim>\<open>constants.ErrNotFound\<close> and \<^verbatim>\<open>ErrNeedRecoveryWAL\<close> are the
  two sentinels the index database names; \<open>ErrOther\<close> stands for any other error
  value (an I/O failure, \<^verbatim>\<open>fmt.Errorf("err")\<close> of a test), and \<open>ErrWrap\<close> for an
  error that wraps another one with \<^verbatim>\<open>%w\<close>, which \<^verbatim>\<open>errors.Is\<close> looks through.
\<close>

datatype error =
    ErrNotFound
  | ErrNeedRecoveryWAL
  | ErrOther string
  | ErrWrap string error

fun errorsIs :: "error \<Rightarrow> error \<Rightarrow> bool" where
  "errorsIs (ErrWrap msg inner) target =
     (ErrWrap msg inner = target \<or> errorsIs inner target)"
| "errorsIs err target = (err = target)"

section \<open>The index database\<close>

subsection \<open>The mapping of one metric\<close>

text \<open>
  Modelled from the spec: \<^verbatim>\<open>MetricIDMapping\<close> (\<^verbatim>\<open>tsdb/indexdb\<close>, not among the
  sources). The data model gives it a metric id, \<open>seq\<close>, the next series id, and
  the table from tags hash to series id. Allocation is
  \<^verbatim>\<open>seriesID = seq; seq += 1\<close>; the rollback removes the hash from the table
  and takes the increment back.
\<close>

record MetricIDMapping =
  mappingMetricID :: uint32
  seq :: uint32
  hashToID :: "uint64 \<rightharpoonup> uint32"






subsection \<open>The collaborators: backend, write-ahead log, metadata, inverted index\<close>

type_synonym seriesRecord = "uint32 \<times> uint64 \<times> uint32"

text \<open>
  Modelled from the spec: \<^verbatim>\<open>mappingEvent\<close>, a bounded batch of
  (metricID, tagsHash, seriesID) tuples. Its capacity is a constant of the missing
  file and is a parameter here.
\<close>

type_synonym MappingEvent = "seriesRecord list"

definition newMappingEvent :: MappingEvent where
  "newMappingEvent = []"

definition addSeriesID :: "MappingEvent \<Rightarrow> uint32 \<Rightarrow> uint64 \<Rightarrow> uint32 \<Rightarrow> MappingEvent" where
  "addSeriesID event mID tagsHash seriesID = event @ [(mID, tagsHash, seriesID)]"

definition isFull :: "nat \<Rightarrow> MappingEvent \<Rightarrow> bool" where
  "isFull capacity event = (capacity \<le> length event)"

definition isEmpty :: "MappingEvent \<Rightarrow> bool" where
  "isEmpty event = (event = [])"

text \<open>
  \<^verbatim>\<open>IDMappingBackend\<close> is an interface (the tests replace it by a mock through
  \<^verbatim>\<open>createBackend\<close>): the record holds what each method answers, the events
  saved so far and how often \<^verbatim>\<open>Close\<close> has been called.
\<close>

record IDMappingBackend =
  loadMetricIDMapping :: "uint32 \<Rightarrow> error + MetricIDMapping"
  getSeriesID :: "uint32 \<Rightarrow> uint64 \<Rightarrow> error + uint32"
  saveMappingResult :: "MappingEvent \<Rightarrow> error option"
  savedEvents :: "MappingEvent list"
  backendCloseResult :: "error option"
  backendCloseCalls :: nat

definition saveMapping :: "IDMappingBackend \<Rightarrow> MappingEvent \<Rightarrow> error option \<times> IDMappingBackend" where
  "saveMapping b event =
     (case saveMappingResult b event of
        Some err \<Rightarrow> (Some err, b)
      | None \<Rightarrow> (None, b\<lparr>savedEvents := savedEvents b @ [event]\<rparr>))"

definition backendClose :: "IDMappingBackend \<Rightarrow> error option \<times> IDMappingBackend" where
  "backendClose b = (backendCloseResult b, b\<lparr>backendCloseCalls := backendCloseCalls b + 1\<rparr>)"

text \<open>
  Modelled from the spec: \<^verbatim>\<open>wal.SeriesWAL\<close> (an interface of \<^verbatim>\<open>tsdb/wal\<close>, not
  among the sources). The log holds the records appended and not yet replayed, in
  append order. \<open>appendFault\<close> is what the next \<^verbatim>\<open>Append\<close> returns; a failed
  append stores nothing. \<^verbatim>\<open>Recovery\<close> replays the records in order, halts at the
  first error of \<^verbatim>\<open>onRecord\<close>, calls \<^verbatim>\<open>onBatchEnd\<close> after the last record and
  truncates the log after a successful replay; \<^verbatim>\<open>NeedRecovery\<close> holds iff
  unreplayed records remain.
\<close>

record SeriesWAL =
  walRecords :: "seriesRecord list"
  appendFault :: "error option"
  walCloseResult :: "error option"
  walCloseCalls :: nat


definition NeedRecovery :: "SeriesWAL \<Rightarrow> bool" where
  "NeedRecovery w = (walRecords w \<noteq> [])"

fun replayRecords ::
  "(seriesRecord \<Rightarrow> 's \<Rightarrow> error option \<times> 's) \<Rightarrow> seriesRecord list \<Rightarrow> 's \<Rightarrow> error option \<times> 's"
where
  "replayRecords onRecord [] st = (None, st)"
| "replayRecords onRecord (r # rs) st =
     (case onRecord r st of
        (Some err, st') \<Rightarrow> (Some err, st')
      | (None, st') \<Rightarrow> replayRecords onRecord rs st')"

definition Recovery ::
  "SeriesWAL \<Rightarrow> (seriesRecord \<Rightarrow> 's \<Rightarrow> error option \<times> 's) \<Rightarrow> ('s \<Rightarrow> error option \<times> 's) \<Rightarrow> 's
    \<Rightarrow> SeriesWAL \<times> 's"
where
  "Recovery w onRecord onBatchEnd st =
     (case replayRecords onRecord (walRecords w) st of
        (Some err, st') \<Rightarrow> (w, st')
      | (None, st') \<Rightarrow>
          (case onBatchEnd st' of
             (Some err, st'') \<Rightarrow> (w, st'')
           | (None, st'') \<Rightarrow> (w\<lparr>walRecords := []\<rparr>, st'')))"

definition walClose :: "SeriesWAL \<Rightarrow> error option \<times> SeriesWAL" where
  "walClose w = (walCloseResult w, w\<lparr>walCloseCalls := walCloseCalls w + 1\<rparr>)"

text \<open>
  \<^verbatim>\<open>metadb.Metadata\<close> and \<^verbatim>\<open>InvertedIndex\<close> are interfaces as well; of the first
  the index database calls \<^verbatim>\<open>MetadataDatabase().GetAllTagKeys\<close>, of the second
  \<^verbatim>\<open>GetSeriesIDsForTags\<close> and \<^verbatim>\<open>Flush\<close>. A roaring bitmap of series ids is the
  set of its members.
\<close>

record TagMeta =
  tagKey :: string
  tagID :: uint32

record Metadata =
  DatabaseName :: string
  GetAllTagKeys :: "string \<Rightarrow> string \<Rightarrow> error + TagMeta list"

record InvertedIndex =
  GetSeriesIDsForTags :: "uint32 list \<Rightarrow> error + uint32 set"
  indexFlushResult :: "error option"
  indexFlushCalls :: nat

definition indexFlush :: "InvertedIndex \<Rightarrow> error option \<times> InvertedIndex" where
  "indexFlush idx = (indexFlushResult idx, idx\<lparr>indexFlushCalls := indexFlushCalls idx + 1\<rparr>)"

text \<open>
  Modelled from the spec: \<^verbatim>\<open>constants.SeriesIDWithoutTags\<close>, the sentinel series id
  0 of a metric without tags.
\<close>

definition SeriesIDWithoutTags :: uint32 where
  "SeriesIDWithoutTags = 0"

subsection \<open>The database\<close>

text \<open>
  \<^verbatim>\<open>type indexDatabase struct\<close>. The context and its cancel function are the flag
  \<open>ctxCancelled\<close>; \<open>checkSyncRunning\<close> says that the goroutine
  \<^verbatim>\<open>checkSync\<close> has been started. Every method holds \<^verbatim>\<open>rwMutex\<close> from entry to
  return, so a call is one step on the state.
\<close>

record indexDatabase =
  path :: string
  ctxCancelled :: bool
  backend :: IDMappingBackend
  metricID2Mapping :: "uint32 \<rightharpoonup> MetricIDMapping"
  metadata :: Metadata
  index :: InvertedIndex
  seriesWAL :: SeriesWAL
  syncInterval :: int64
  checkSyncRunning :: bool

definition walPath :: string where
  "walPath = ''wal''"

definition seriesWALPath :: string where
  "seriesWALPath = ''series''"

text \<open>\<^verbatim>\<open>filepath.Join\<close> on path elements: empty elements are dropped, the rest joined by a slash.\<close>

fun joinElems :: "string list \<Rightarrow> string" where
  "joinElems [] = []"
| "joinElems [x] = x"
| "joinElems (x # y # ys) = x @ ''/'' @ joinElems (y # ys)"

definition filepathJoin :: "string list \<Rightarrow> string" where
  "filepathJoin elems = joinElems (filter (\<lambda>e. e \<noteq> []) elems)"

text \<open>
  \<^verbatim>\<open>func (db *indexDatabase) seriesRecovery()\<close>. The two closures share the
  variable \<^verbatim>\<open>event\<close> and the backend: that pair is the state threaded through
  the replay.
\<close>

definition recoveryOnRecord ::
  "nat \<Rightarrow> seriesRecord \<Rightarrow> MappingEvent \<times> IDMappingBackend
     \<Rightarrow> error option \<times> MappingEvent \<times> IDMappingBackend"
where
  "recoveryOnRecord capacity r st =
     (case (r, st) of ((mID, tagsHash, seriesID), (event, b)) \<Rightarrow>
        (let event1 = addSeriesID event mID tagsHash seriesID in
         if isFull capacity event1 then
           (case saveMapping b event1 of
              (Some err, b1) \<Rightarrow> (Some err, (event1, b1))
            | (None, b1) \<Rightarrow> (None, (newMappingEvent, b1)))
         else (None, (event1, b))))"

definition recoveryOnBatchEnd ::
  "MappingEvent \<times> IDMappingBackend \<Rightarrow> error option \<times> MappingEvent \<times> IDMappingBackend"
where
  "recoveryOnBatchEnd st =
     (case st of (event, b) \<Rightarrow>
        if \<not> isEmpty event then
          (case saveMapping b event of
             (Some err, b1) \<Rightarrow> (Some err, (event, b1))
           | (None, b1) \<Rightarrow> (None, (event, b1)))
        else (None, (event, b)))"

definition seriesRecovery :: "nat \<Rightarrow> indexDatabase \<Rightarrow> indexDatabase" where
  "seriesRecovery capacity db =
     (case Recovery (seriesWAL db) (recoveryOnRecord capacity) recoveryOnBatchEnd
             (newMappingEvent, backend db) of
        (w, (event, b)) \<Rightarrow> db\<lparr>seriesWAL := w, backend := b\<rparr>)"

text \<open>
  \<^verbatim>\<open>func NewIndexDatabase(ctx, parent, metadata, forwardFamily, invertedFamily)\<close>.
  The factories \<^verbatim>\<open>createBackend\<close> and \<^verbatim>\<open>createSeriesWAL\<close> are package variables and
  \<^verbatim>\<open>newInvertedIndex\<close> is a function of a missing file: all three are parameters.
  The result comes with the backend that was created, in its final state, so that
  the deferred \<^verbatim>\<open>backend.Close()\<close> of the error paths can be observed.
\<close>

type_synonym kvFamily = string

definition openIndexDatabase ::
  "string \<Rightarrow> IDMappingBackend \<Rightarrow> Metadata \<Rightarrow> InvertedIndex \<Rightarrow> SeriesWAL \<Rightarrow> indexDatabase"
where
  "openIndexDatabase parent b meta idx w =
     \<lparr>path = parent, ctxCancelled = False, backend = b,
      metricID2Mapping = Map.empty, metadata = meta, index = idx,
      seriesWAL = w, syncInterval = 2 * 1000, checkSyncRunning = False\<rparr>"

definition NewIndexDatabase ::
  "nat \<Rightarrow> (string \<Rightarrow> error + IDMappingBackend) \<Rightarrow> (string \<Rightarrow> error + SeriesWAL)
     \<Rightarrow> (Metadata \<Rightarrow> kvFamily \<Rightarrow> kvFamily \<Rightarrow> InvertedIndex)
     \<Rightarrow> string \<Rightarrow> Metadata \<Rightarrow> kvFamily \<Rightarrow> kvFamily
     \<Rightarrow> (error + indexDatabase) \<times> IDMappingBackend option"
where
  "NewIndexDatabase capacity createBackend createSeriesWAL newInvertedIndex
       parent meta forwardFamily invertedFamily =
     (case createBackend parent of
        Inl err \<Rightarrow> (Inl err, None)
      | Inr b \<Rightarrow>
          (case createSeriesWAL (filepathJoin [parent, walPath, seriesWALPath]) of
             Inl err \<Rightarrow> (Inl err, Some (snd (backendClose b)))
           | Inr w \<Rightarrow>
               (let db = seriesRecovery capacity
                      (openIndexDatabase parent b meta
                         (newInvertedIndex meta forwardFamily invertedFamily) w)
                in if NeedRecovery (seriesWAL db)
                   then (Inl ErrNeedRecoveryWAL, Some (snd (backendClose (backend db))))
                   else (Inr (db\<lparr>checkSyncRunning := True\<rparr>), Some (backend db)))))"



text \<open>\<^verbatim>\<open>func (db *indexDatabase) GetSeriesIDsForMetric(namespace, metricName)\<close>.\<close>

definition GetSeriesIDsForMetric :: "indexDatabase \<Rightarrow> string \<Rightarrow> string \<Rightarrow> error + uint32 set" where
  "GetSeriesIDsForMetric db namespace metricName =
     (case GetAllTagKeys (metadata db) namespace metricName of
        Inl err \<Rightarrow> Inl err
      | Inr tags \<Rightarrow>
          if length tags = 0 then Inr {SeriesIDWithoutTags}
          else GetSeriesIDsForTags (index db) (map tagID tags))"

text \<open>
  \<^verbatim>\<open>func (db *indexDatabase) Close() error\<close>. The result carries the calls made, in
  the order they are made. An error of \<^verbatim>\<open>seriesWAL.Close\<close> is logged only; an
  error of \<^verbatim>\<open>backend.Close\<close> is returned at once.
\<close>

datatype closeStep =
  CancelContext | LockMutex | CloseSeriesWAL | CloseBackend | FlushIndex | UnlockMutex

definition Close :: "indexDatabase \<Rightarrow> (error option \<times> closeStep list) \<times> indexDatabase" where
  "Close db =
     (let db1 = db\<lparr>ctxCancelled := True\<rparr>;
          steps1 = [CancelContext, LockMutex]
      in case walClose (seriesWAL db1) of (walErr, w) \<Rightarrow>
         (let db2 = db1\<lparr>seriesWAL := w\<rparr>;
              steps2 = steps1 @ [CloseSeriesWAL]
          in case backendClose (backend db2) of (backendErr, b) \<Rightarrow>
             (let db3 = db2\<lparr>backend := b\<rparr>;
                  steps3 = steps2 @ [CloseBackend]
              in case backendErr of
                   Some err \<Rightarrow> ((Some err, steps3 @ [UnlockMutex]), db3)
                 | None \<Rightarrow>
                     (case indexFlush (index db3) of (flushErr, idx) \<Rightarrow>
                        ((flushErr, steps3 @ [FlushIndex, UnlockMutex]),
                         db3\<lparr>index := idx\<rparr>)))))"







subsection \<open>Fixtures\<close>

text \<open>
  The collaborators as the tests set them up: a backend that knows no metric, an
  empty log, metadata without tag keys, an index that flushes without error; then
  the same database with a log whose \<^verbatim>\<open>Append\<close> fails, with a backend whose
  \<^verbatim>\<open>Close\<close> fails, and the pieces of a start that finds a record it cannot replay.
\<close>

definition mockBackend :: IDMappingBackend where
  "mockBackend =
     \<lparr>loadMetricIDMapping = (\<lambda>mID. Inl ErrNotFound),
      getSeriesID = (\<lambda>mID tagsHash. Inl ErrNotFound),
      saveMappingResult = (\<lambda>event. None), savedEvents = [],
      backendCloseResult = None, backendCloseCalls = 0\<rparr>"

definition mockSeriesWAL :: SeriesWAL where
  "mockSeriesWAL =
     \<lparr>walRecords = [], appendFault = None, walCloseResult = None, walCloseCalls = 0\<rparr>"

definition mockMetadata :: Metadata where
  "mockMetadata =
     \<lparr>DatabaseName = ''test'', GetAllTagKeys = (\<lambda>namespace metricName. Inr [])\<rparr>"

definition mockIndex :: InvertedIndex where
  "mockIndex =
     \<lparr>GetSeriesIDsForTags = (\<lambda>tagKeyIDs. Inr {}), indexFlushResult = None,
      indexFlushCalls = 0\<rparr>"

definition testDB :: indexDatabase where
  "testDB = openIndexDatabase ''/tmp/indexdb'' mockBackend mockMetadata mockIndex mockSeriesWAL"

definition faultyDB :: indexDatabase where
  "faultyDB = testDB\<lparr>seriesWAL := mockSeriesWAL\<lparr>appendFault := Some (ErrOther ''err'')\<rparr>\<rparr>"

definition closeFailDB :: indexDatabase where
  "closeFailDB =
     testDB\<lparr>backend := mockBackend\<lparr>backendCloseResult := Some (ErrOther ''err'')\<rparr>\<rparr>"

definition brokenBackend :: IDMappingBackend where
  "brokenBackend = mockBackend\<lparr>saveMappingResult := (\<lambda>event. Some (ErrOther ''err''))\<rparr>"

definition pendingWAL :: SeriesWAL where
  "pendingWAL = mockSeriesWAL\<lparr>walRecords := [(7, 57005, 1)]\<rparr>"

section \<open>Sanitising metric identities\<close>

text \<open>
  Modelled from the spec: \<^verbatim>\<open>SanitizeNamespace\<close>, \<^verbatim>\<open>SanitizeMetricName\<close> and
  \<^verbatim>\<open>JoinNamespaceMetric\<close> of package \<^verbatim>\<open>series/metric\<close>; of that package only
  \<^verbatim>\<open>Test_Sanitize\<close> is among the sources. Both sanitisers replace every
  \<^verbatim>\<open>|\<close> by \<^verbatim>\<open>_\<close> and pass every other byte through; the join puts one
  \<^verbatim>\<open>|\<close> between its arguments and sanitises nothing.
\<close>

definition replaceBar :: "string \<Rightarrow> string" where
  "replaceBar s = map (\<lambda>c. if c = CHR ''|'' then CHR ''_'' else c) s"

definition SanitizeNamespace :: "string \<Rightarrow> string" where
  "SanitizeNamespace ns = replaceBar ns"

definition SanitizeMetricName :: "string \<Rightarrow> string" where
  "SanitizeMetricName name = replaceBar name"

definition JoinNamespaceMetric :: "string \<Rightarrow> string \<Rightarrow> string" where
  "JoinNamespaceMetric ns name = ns @ ''|'' @ name"

section \<open>Segments and data families\<close>

text \<open>
  Modelled from the spec: \<^verbatim>\<open>tsdb/segment.go\<close> is not among the sources, its test
  \<^verbatim>\<open>segment_test.go\<close> is. Timestamps are milliseconds since the epoch, taken as
  integers. A segment covers one day from its base time; a data family covers
  one hour of it, and its slot is (timestamp - base time) / one hour, which is the
  hour 0 to 23. The test reads the time range of a family as first and last
  millisecond (\<^verbatim>\<open>End: familyEndTime - 1\<close>), so \<open>End\<close> is the last millisecond
  of the hour and the half-open window is from \<open>Start\<close> to \<open>Start + OneHour\<close>.
\<close>

definition OneSecond :: int where
  "OneSecond = 1000"

definition OneHour :: int where
  "OneHour = 3600 * OneSecond"

definition OneDay :: int where
  "OneDay = 24 * OneHour"

record TimeRange =
  Start :: int
  End :: int

definition Contains :: "TimeRange \<Rightarrow> int \<Rightarrow> bool" where
  "Contains r timestamp = (Start r \<le> timestamp \<and> timestamp \<le> End r)"

record DataFamily =
  familyTimeRange :: TimeRange
  family :: kvFamily

text \<open>
  The families map is a \<^verbatim>\<open>sync.Map\<close>: it can hold a value that is not a
  \<^verbatim>\<open>DataFamily\<close>, as the test stores the string \<^verbatim>\<open>"err data family"\<close> under 23.
\<close>

datatype familyEntry = FamilyValue DataFamily | StrayValue string

text \<open>
  \<^verbatim>\<open>kv.Store\<close> is an interface (the tests put a mock in its place): the names of
  its families, what \<^verbatim>\<open>CreateFamily\<close> answers for a name, what \<^verbatim>\<open>Close\<close> answers
  and how often \<^verbatim>\<open>Close\<close> has been called.
\<close>

record Store =
  familyNames :: "string list"
  createFamilyResult :: "string \<Rightarrow> error option"
  storeCloseResult :: "error option"
  storeCloseCalls :: nat

definition ListFamilyNames :: "Store \<Rightarrow> string list" where
  "ListFamilyNames st = familyNames st"

definition CreateFamily :: "Store \<Rightarrow> string \<Rightarrow> (error + kvFamily) \<times> Store" where
  "CreateFamily st name =
     (case createFamilyResult st name of
        Some err \<Rightarrow> (Inl err, st)
      | None \<Rightarrow> (Inr name, st\<lparr>familyNames := familyNames st @ [name]\<rparr>))"

definition storeClose :: "Store \<Rightarrow> error option \<times> Store" where
  "storeClose st = (storeCloseResult st, st\<lparr>storeCloseCalls := storeCloseCalls st + 1\<rparr>)"

record segment =
  baseTime :: int
  interval :: int
  kvStore :: Store
  families :: "int \<rightharpoonup> familyEntry"

text \<open>A slot as decimal text, and decimal text as an integer (the rule of \<^verbatim>\<open>strconv.Atoi\<close>).\<close>

definition digitChar :: "nat \<Rightarrow> char" where
  "digitChar d = ''0123456789'' ! d"

function decimal :: "nat \<Rightarrow> string" where
  "decimal n = (if n < 10 then [digitChar n] else decimal (n div 10) @ [digitChar (n mod 10)])"
  by pat_completeness auto
termination
  by (relation "measure id") auto

declare decimal.simps [simp del]

definition formatInt :: "int \<Rightarrow> string" where
  "formatInt i = (if i < 0 then CHR ''-'' # decimal (nat (- i)) else decimal (nat i))"

definition isDigit :: "char \<Rightarrow> bool" where
  "isDigit c = (48 \<le> (of_char c :: nat) \<and> (of_char c :: nat) \<le> 57)"

fun digitsValue :: "string \<Rightarrow> nat \<Rightarrow> nat" where
  "digitsValue [] acc = acc"
| "digitsValue (c # cs) acc = digitsValue cs (acc * 10 + (of_char c - 48))"

definition Atoi :: "string \<Rightarrow> error + int" where
  "Atoi s =
     (let negative = (s \<noteq> [] \<and> hd s = CHR ''-'');
          digits = (if s \<noteq> [] \<and> (hd s = CHR ''-'' \<or> hd s = CHR ''+'') then tl s else s)
      in if digits = [] \<or> \<not> list_all isDigit digits
         then Inl (ErrOther ''invalid syntax'')
         else (let v = (if negative then - int (digitsValue digits 0)
                        else int (digitsValue digits 0))
               in if v < - (2 ^ 63) \<or> 2 ^ 63 \<le> v then Inl (ErrOther ''value out of range'')
                  else Inr v))"

definition familySlot :: "int \<Rightarrow> int \<Rightarrow> int" where
  "familySlot base timestamp = (timestamp - base) div OneHour"

definition slotRange :: "int \<Rightarrow> int \<Rightarrow> TimeRange" where
  "slotRange base slot =
     \<lparr>Start = base + slot * OneHour, End = base + slot * OneHour + OneHour - 1\<rparr>"

definition newDataFamily :: "int \<Rightarrow> int \<Rightarrow> kvFamily \<Rightarrow> DataFamily" where
  "newDataFamily base slot fam = \<lparr>familyTimeRange = slotRange base slot, family = fam\<rparr>"

text \<open>
  Modelled from the spec: \<^verbatim>\<open>segment.GetOrCreateDataFamily(timestamp)\<close>. A
  timestamp outside the segment's day is a range error; a slot that holds a data
  family returns it; a slot that holds anything else fails with
  \<^verbatim>\<open>ErrNotFound\<close>; an empty slot gets a family created through the store under
  the slot's decimal name, whose error, if any, is returned (the test makes
  \<^verbatim>\<open>CreateFamily("11", _)\<close> fail and expects an error and no family).
\<close>

definition GetOrCreateDataFamily :: "int \<Rightarrow> segment \<Rightarrow> (error + DataFamily) \<times> segment" where
  "GetOrCreateDataFamily timestamp seg =
     (if timestamp < baseTime seg \<or> baseTime seg + OneDay \<le> timestamp
      then (Inl (ErrOther ''timestamp not in segment''), seg)
      else
        (let slot = familySlot (baseTime seg) timestamp
         in case families seg slot of
              Some (FamilyValue f) \<Rightarrow> (Inr f, seg)
            | Some (StrayValue v) \<Rightarrow> (Inl ErrNotFound, seg)
            | None \<Rightarrow>
                (case CreateFamily (kvStore seg) (formatInt slot) of
                   (Inl err, st) \<Rightarrow> (Inl err, seg\<lparr>kvStore := st\<rparr>)
                 | (Inr fam, st) \<Rightarrow>
                     (let f = newDataFamily (baseTime seg) slot fam
                      in (Inr f, seg\<lparr>kvStore := st,
                                    families := (families seg)(slot \<mapsto> FamilyValue f)\<rparr>)))))"

text \<open>
  Modelled from the spec: \<^verbatim>\<open>newSegment(shard, segmentName, interval, path)\<close>. It
  opens the store through the package variable \<^verbatim>\<open>newStore\<close>, a parameter here as
  is the parser of the segment name (package \<^verbatim>\<open>timeutil\<close>); the shard is a
  back-reference and left out. It lists the family names, parses each as a slot
  and rebuilds the families map; a name that does not parse makes it fail. The
  result comes with the store that was opened, in its final state.

  What it calls on the store when a name does not parse is taken from
  \<^verbatim>\<open>TestSegment_loadFamily_err\<close>, the one place of the sources that runs this
  path: the store there is a gomock mock that expects \<^verbatim>\<open>ListFamilyNames\<close> and no
  other call, and a gomock mock fails the test at a call it does not expect. So
  \<^verbatim>\<open>Close\<close> is not called on the store on this path; where the test
  \<^verbatim>\<open>TestSegment_GetDataFamily\<close> does close a mock store, it expects the call.
\<close>

fun loadFamilies ::
  "int \<Rightarrow> string list \<Rightarrow> (int \<rightharpoonup> familyEntry) \<Rightarrow> error + (int \<rightharpoonup> familyEntry)"
where
  "loadFamilies base [] fams = Inr fams"
| "loadFamilies base (name # names) fams =
     (case Atoi name of
        Inl err \<Rightarrow> Inl (ErrWrap ''load data family error'' err)
      | Inr slot \<Rightarrow>
          loadFamilies base names (fams(slot \<mapsto> FamilyValue (newDataFamily base slot name))))"

definition newSegment ::
  "(string \<Rightarrow> error + Store) \<Rightarrow> (string \<Rightarrow> error + int) \<Rightarrow> string \<Rightarrow> int \<Rightarrow> string
     \<Rightarrow> (error + segment) \<times> Store option"
where
  "newSegment newStore parseSegmentTime segmentName ival storePath =
     (case newStore storePath of
        Inl err \<Rightarrow> (Inl (ErrWrap ''create kv store for segment error'' err), None)
      | Inr st \<Rightarrow>
          (case parseSegmentTime segmentName of
             Inl err \<Rightarrow> (Inl (ErrWrap ''parse segment base time error'' err), Some st)
           | Inr base \<Rightarrow>
               (case loadFamilies base (ListFamilyNames st) Map.empty of
                  Inl err \<Rightarrow> (Inl err, Some st)
                | Inr fams \<Rightarrow>
                    (Inr \<lparr>baseTime = base, interval = ival, kvStore = st, families = fams\<rparr>,
                     Some st))))"

text \<open>
  The invariant of the families map: a data family stored under a slot has the
  time range of that slot. \<^verbatim>\<open>newSegment\<close> establishes it and
  \<^verbatim>\<open>GetOrCreateDataFamily\<close> keeps it.
\<close>

definition segmentOK :: "segment \<Rightarrow> bool" where
  "segmentOK seg =
     (\<forall>slot f. families seg slot = Some (FamilyValue f) \<longrightarrow>
         familyTimeRange f = slotRange (baseTime seg) slot)"

subsection \<open>Fixtures\<close>

text \<open>
  The segment of 2019-09-04 (base time 1567555200000) over an empty store, the
  same with the stray value of the test under slot 23, a store that lists the
  family name \<^verbatim>\<open>abc\<close>, and a parser that knows this one segment name.
\<close>

definition abcStore :: Store where
  "abcStore = \<lparr>familyNames = [''abc''], createFamilyResult = (\<lambda>name. None),
      storeCloseResult = None, storeCloseCalls = 0\<rparr>"

definition emptyStore :: Store where
  "emptyStore = \<lparr>familyNames = [], createFamilyResult = (\<lambda>name. None),
      storeCloseResult = None, storeCloseCalls = 0\<rparr>"

definition seg20190904 :: segment where
  "seg20190904 = \<lparr>baseTime = 1567555200000, interval = 10 * OneSecond, kvStore = emptyStore,
      families = Map.empty\<rparr>"

definition strayDataFamily :: segment where
  "strayDataFamily = seg20190904\<lparr>families := [23 \<mapsto> StrayValue ''err data family'']\<rparr>"


section \<open>Properties of the replication channel\<close>

lemma sint_MiB: "sint (1024 * 1024 :: int64) = 1048576"
  by simp

lemma sint_GiB: "sint (1024 * 1024 * 1024 :: int64) = 1073741824"
  by simp

lemma sint_scaled:
  fixes d :: int64
  assumes lo: "1 < sint d" and hi: "sint d < 1024"
  shows "sint (d * 1024 * 1024) = sint d * 1048576"
proof -
  have eq: "d * 1024 * 1024 = d * 1048576" by simp
  have "- (2 ^ 63) \<le> sint d * 1048576" using lo by simp
  moreover have "sint d * 1048576 < 2 ^ 63" using hi by simp
  ultimately have "signed_take_bit 63 (sint d * 1048576) = sint d * 1048576"
    by (rule signed_take_bit_int_eq_self)
  then have "sint (d * 1048576) = sint d * 1048576"
    by (simp add: sint_word_mult)
  then show ?thesis by (simp only: eq)
qed

text \<open>
  C10. For every replication channel, \<^verbatim>\<open>GetDataSizeLimit\<close> is exactly 1 MiB when
  the configured limit is at most 1 (zero and negative values included), exactly 1 GiB
  when it is at least 1024, and the configured limit times 1 MiB, without overflow,
  in between; in all three cases the result, read as a signed 64-bit number, lies
  in the closed range from 1 MiB to 1 GiB.
\<close>

theorem GetDataSizeLimit_range:
  "(sint (DataSizeLimit rc) \<le> 1 \<longrightarrow> sint (GetDataSizeLimit rc) = 1024 * 1024) \<and>
   (1024 \<le> sint (DataSizeLimit rc) \<longrightarrow> sint (GetDataSizeLimit rc) = 1024 * 1024 * 1024) \<and>
   (1 < sint (DataSizeLimit rc) \<and> sint (DataSizeLimit rc) < 1024 \<longrightarrow>
      sint (GetDataSizeLimit rc) = sint (DataSizeLimit rc) * (1024 * 1024)) \<and>
   1024 * 1024 \<le> sint (GetDataSizeLimit rc) \<and>
   sint (GetDataSizeLimit rc) \<le> 1024 * 1024 * 1024"
proof -
  let ?d = "DataSizeLimit rc"
  consider (small) "sint ?d \<le> 1" | (big) "1024 \<le> sint ?d"
    | (mid) "1 < sint ?d" "sint ?d < 1024"
    by linarith
  then show ?thesis
  proof cases
    case small
    then have "GetDataSizeLimit rc = 1024 * 1024"
      by (simp add: GetDataSizeLimit_def word_sle_eq)
    with small show ?thesis by simp
  next
    case big
    then have "GetDataSizeLimit rc = 1024 * 1024 * 1024"
      by (simp add: GetDataSizeLimit_def word_sle_eq)
    with big show ?thesis by simp
  next
    case mid
    then have "GetDataSizeLimit rc = ?d * 1024 * 1024"
      by (simp add: GetDataSizeLimit_def word_sle_eq)
    then have "sint (GetDataSizeLimit rc) = sint ?d * 1048576"
      using sint_scaled [OF mid] by simp
    with mid show ?thesis by simp
  qed
qed

theorem GetDataSizeLimit_range_witness:
  "sint (GetDataSizeLimit \<lparr>Dir = ''/data'', DataSizeLimit = - 5, RemoveTaskInterval = 0,
      ReportInterval = 0, CheckFlushInterval = 0, FlushInterval = 0, BufferSize = 0\<rparr>)
     = 1024 * 1024 \<and>
   sint (GetDataSizeLimit \<lparr>Dir = ''/data'', DataSizeLimit = 4096, RemoveTaskInterval = 0,
      ReportInterval = 0, CheckFlushInterval = 0, FlushInterval = 0, BufferSize = 0\<rparr>)
     = 1024 * 1024 * 1024 \<and>
   sint (GetDataSizeLimit \<lparr>Dir = ''/data'', DataSizeLimit = 512, RemoveTaskInterval = 0,
      ReportInterval = 0, CheckFlushInterval = 0, FlushInterval = 0, BufferSize = 0\<rparr>)
     = 512 * (1024 * 1024)"
  using GetDataSizeLimit_range [of "\<lparr>Dir = ''/data'', DataSizeLimit = - 5,
      RemoveTaskInterval = 0, ReportInterval = 0, CheckFlushInterval = 0, FlushInterval = 0,
      BufferSize = 0\<rparr>"]
    GetDataSizeLimit_range [of "\<lparr>Dir = ''/data'', DataSizeLimit = 4096,
      RemoveTaskInterval = 0, ReportInterval = 0, CheckFlushInterval = 0, FlushInterval = 0,
      BufferSize = 0\<rparr>"]
    GetDataSizeLimit_range [of "\<lparr>Dir = ''/data'', DataSizeLimit = 512,
      RemoveTaskInterval = 0, ReportInterval = 0, CheckFlushInterval = 0, FlushInterval = 0,
      BufferSize = 0\<rparr>"]
  by simp

section \<open>Properties of the index database\<close>

lemmas fixture_defs = testDB_def faultyDB_def closeFailDB_def openIndexDatabase_def
  mockBackend_def mockSeriesWAL_def mockMetadata_def mockIndex_def brokenBackend_def
  pendingWAL_def


lemmas recovery_defs = seriesRecovery_def Recovery_def recoveryOnRecord_def
  recoveryOnBatchEnd_def saveMapping_def addSeriesID_def newMappingEvent_def isFull_def
  isEmpty_def NeedRecovery_def

subsection \<open>A cached pair stays what it is\<close>













subsection \<open>A failed append\<close>








subsection \<open>Opening the database\<close>

lemma saveMapping_closeCalls:
  "backendCloseCalls (snd (saveMapping b event)) = backendCloseCalls b"
  by (simp add: saveMapping_def split: option.splits)

lemma onRecord_closeCalls:
  "backendCloseCalls (snd (snd (recoveryOnRecord n r (event, b)))) = backendCloseCalls b"
  using saveMapping_closeCalls [of b "addSeriesID event (fst r) (fst (snd r)) (snd (snd r))"]
  by (cases r) (auto simp: recoveryOnRecord_def Let_def split: prod.splits option.splits)

lemma replay_closeCalls:
  "backendCloseCalls (snd (snd (replayRecords (recoveryOnRecord n) rs (event, b))))
     = backendCloseCalls b"
proof (induction rs arbitrary: event b)
  case Nil
  show ?case by simp
next
  case (Cons r rs)
  obtain res event' b' where step: "recoveryOnRecord n r (event, b) = (res, event', b')"
    by (cases "recoveryOnRecord n r (event, b)") auto
  have keep: "backendCloseCalls b' = backendCloseCalls b"
    using onRecord_closeCalls [of n r event b] step by simp
  show ?case
  proof (cases res)
    case None
    then show ?thesis using step keep Cons.IH [of event' b'] by simp
  next
    case (Some err)
    then show ?thesis using step keep by simp
  qed
qed

lemma onBatchEnd_closeCalls:
  "backendCloseCalls (snd (snd (recoveryOnBatchEnd (event, b)))) = backendCloseCalls b"
  using saveMapping_closeCalls [of b event]
  by (auto simp: recoveryOnBatchEnd_def split: prod.splits option.splits)

lemma seriesRecovery_closeCalls:
  "backendCloseCalls (backend (seriesRecovery n db)) = backendCloseCalls (backend db)"
proof -
  obtain res event b where rep:
    "replayRecords (recoveryOnRecord n) (walRecords (seriesWAL db)) (newMappingEvent, backend db)
       = (res, event, b)"
    by (cases "replayRecords (recoveryOnRecord n) (walRecords (seriesWAL db))
                 (newMappingEvent, backend db)") auto
  have k1: "backendCloseCalls b = backendCloseCalls (backend db)"
    using replay_closeCalls [of n "walRecords (seriesWAL db)" newMappingEvent "backend db"] rep
    by simp
  obtain res2 event2 b2 where fin: "recoveryOnBatchEnd (event, b) = (res2, event2, b2)"
    by (cases "recoveryOnBatchEnd (event, b)") auto
  have k2: "backendCloseCalls b2 = backendCloseCalls b"
    using onBatchEnd_closeCalls [of event b] fin by simp
  show ?thesis
    using rep fin k1 k2
    by (cases res; cases res2) (simp_all add: seriesRecovery_def Recovery_def)
qed

text \<open>
  C3. When backend and log have been created and the log still needs recovery
  after the initial \<^verbatim>\<open>seriesRecovery\<close>, \<^verbatim>\<open>NewIndexDatabase\<close> returns no database
  but the error \<^verbatim>\<open>ErrNeedRecoveryWAL\<close>, and \<^verbatim>\<open>Close\<close> has been called once on the
  backend it created.
\<close>

theorem NewIndexDatabase_need_recovery:
  assumes backend_ok: "createBackend parent = Inr b"
      and wal_ok: "createSeriesWAL (filepathJoin [parent, walPath, seriesWALPath]) = Inr w"
      and pending: "NeedRecovery (seriesWAL (seriesRecovery capacity
                      (openIndexDatabase parent b meta
                         (newInvertedIndex meta forwardFamily invertedFamily) w)))"
  shows "\<exists>b'. NewIndexDatabase capacity createBackend createSeriesWAL newInvertedIndex
                 parent meta forwardFamily invertedFamily = (Inl ErrNeedRecoveryWAL, Some b')
              \<and> backendCloseCalls b' = backendCloseCalls b + 1"
proof -
  let ?db = "seriesRecovery capacity
               (openIndexDatabase parent b meta
                  (newInvertedIndex meta forwardFamily invertedFamily) w)"
  have res: "NewIndexDatabase capacity createBackend createSeriesWAL newInvertedIndex
                 parent meta forwardFamily invertedFamily
              = (Inl ErrNeedRecoveryWAL, Some (snd (backendClose (backend ?db))))"
    using backend_ok wal_ok pending by (simp add: NewIndexDatabase_def Let_def)
  have "backendCloseCalls (backend ?db) = backendCloseCalls b"
    by (simp add: seriesRecovery_closeCalls openIndexDatabase_def)
  then have "backendCloseCalls (snd (backendClose (backend ?db))) = backendCloseCalls b + 1"
    by (simp add: backendClose_def)
  with res show ?thesis by blast
qed

theorem NewIndexDatabase_need_recovery_witness:
  "NeedRecovery (seriesWAL (seriesRecovery 2
      (openIndexDatabase ''/tmp/indexdb'' brokenBackend mockMetadata mockIndex pendingWAL))) \<and>
   (\<exists>b'. NewIndexDatabase 2 (\<lambda>parent. Inr brokenBackend) (\<lambda>dir. Inr pendingWAL)
            (\<lambda>meta forwardFamily invertedFamily. mockIndex)
            ''/tmp/indexdb'' mockMetadata ''forward'' ''inverted''
          = (Inl ErrNeedRecoveryWAL, Some b') \<and> backendCloseCalls b' = 1)"
proof -
  have h1: "(\<lambda>parent. Inr brokenBackend :: error + IDMappingBackend) ''/tmp/indexdb''
              = Inr brokenBackend"
    by simp
  have h2: "(\<lambda>dir. Inr pendingWAL :: error + SeriesWAL)
              (filepathJoin [''/tmp/indexdb'', walPath, seriesWALPath]) = Inr pendingWAL"
    by simp
  have h3: "NeedRecovery (seriesWAL (seriesRecovery 2
      (openIndexDatabase ''/tmp/indexdb'' brokenBackend mockMetadata
         ((\<lambda>meta forwardFamily invertedFamily. mockIndex) mockMetadata ''forward'' ''inverted'')
         pendingWAL)))"
    by (simp add: fixture_defs recovery_defs)
  have zero: "backendCloseCalls brokenBackend = 0"
    by (simp add: fixture_defs)
  from NewIndexDatabase_need_recovery [of "\<lambda>parent. Inr brokenBackend", OF h1 h2 h3] zero h3
  show ?thesis by simp
qed

subsection \<open>Series of a metric\<close>

text \<open>
  C4. For every namespace and metric name for which the metadata returns an empty
  list of tag keys, \<^verbatim>\<open>GetSeriesIDsForMetric\<close> returns the bitmap whose only member
  is 0, and no error.
\<close>

theorem GetSeriesIDsForMetric_no_tags:
  assumes "GetAllTagKeys (metadata db) namespace metricName = Inr []"
  shows "GetSeriesIDsForMetric db namespace metricName = Inr {0}"
  using assms by (simp add: GetSeriesIDsForMetric_def SeriesIDWithoutTags_def)

theorem GetSeriesIDsForMetric_no_tags_witness:
  "GetAllTagKeys (metadata testDB) ''ns'' ''cpu'' = Inr [] \<and>
   GetSeriesIDsForMetric testDB ''ns'' ''cpu'' = Inr {0}"
proof -
  have h: "GetAllTagKeys (metadata testDB) ''ns'' ''cpu'' = Inr []"
    by (simp add: fixture_defs)
  from GetSeriesIDsForMetric_no_tags [OF h] h show ?thesis by simp
qed

subsection \<open>Closing the database\<close>

text \<open>
  C8, as the claim has it, fails when the backend cannot be closed:
  \<^verbatim>\<open>Close\<close> returns the backend's error at once and the index is not flushed.
\<close>

theorem Close_flush_counterexample:
  "fst (Close closeFailDB) =
     (Some (ErrOther ''err''),
      [CancelContext, LockMutex, CloseSeriesWAL, CloseBackend, UnlockMutex]) \<and>
   indexFlushCalls (index (snd (Close closeFailDB))) = indexFlushCalls (index closeFailDB)"
  by (simp add: Close_def walClose_def backendClose_def indexFlush_def Let_def fixture_defs)

text \<open>
  C8, amended. \<^verbatim>\<open>Close\<close> cancels the context, takes the write lock, closes the
  log (whatever that returns) and closes the backend, in this order. When the
  backend closes without error it then flushes the index, once, and returns what
  the flush returns; when the backend's \<^verbatim>\<open>Close\<close> fails it returns that error
  and the index is not flushed.
\<close>

theorem Close_order:
  "fst (Close db) =
     (case backendCloseResult (backend db) of
        Some err \<Rightarrow>
          (Some err, [CancelContext, LockMutex, CloseSeriesWAL, CloseBackend, UnlockMutex])
      | None \<Rightarrow>
          (indexFlushResult (index db),
           [CancelContext, LockMutex, CloseSeriesWAL, CloseBackend, FlushIndex, UnlockMutex]))
   \<and> ctxCancelled (snd (Close db))
   \<and> walCloseCalls (seriesWAL (snd (Close db))) = walCloseCalls (seriesWAL db) + 1
   \<and> backendCloseCalls (backend (snd (Close db))) = backendCloseCalls (backend db) + 1
   \<and> indexFlushCalls (index (snd (Close db))) =
       indexFlushCalls (index db) + (if backendCloseResult (backend db) = None then 1 else 0)"
  by (simp add: Close_def walClose_def backendClose_def indexFlush_def Let_def
        split: option.splits)

section \<open>Properties of the sanitisers\<close>

text \<open>
  C9. \<^verbatim>\<open>SanitizeNamespace\<close> and \<^verbatim>\<open>SanitizeMetricName\<close> keep the length of their
  input, put \<^verbatim>\<open>_\<close> wherever the input has \<^verbatim>\<open>|\<close> and leave every other
  character as it is, so they are the identity on an input without \<^verbatim>\<open>|\<close>;
  \<^verbatim>\<open>JoinNamespaceMetric\<close> is its first argument, one \<^verbatim>\<open>|\<close>, its second argument,
  neither of them changed: \<^verbatim>\<open>aa\<close> and \<^verbatim>\<open>bb\<close> give \<^verbatim>\<open>aa|bb\<close>.
\<close>

theorem Sanitize_replaces_bar:
  "length (SanitizeNamespace s) = length s \<and> length (SanitizeMetricName s) = length s
   \<and> (\<forall>i < length s.
         SanitizeNamespace s ! i = (if s ! i = CHR ''|'' then CHR ''_'' else s ! i) \<and>
         SanitizeMetricName s ! i = (if s ! i = CHR ''|'' then CHR ''_'' else s ! i))
   \<and> (CHR ''|'' \<notin> set s \<longrightarrow> SanitizeNamespace s = s \<and> SanitizeMetricName s = s)
   \<and> JoinNamespaceMetric ns name = ns @ ''|'' @ name
   \<and> JoinNamespaceMetric ''aa'' ''bb'' = ''aa|bb''"
proof -
  have "CHR ''|'' \<notin> set s \<Longrightarrow> replaceBar s = s"
    by (induction s) (auto simp: replaceBar_def)
  then show ?thesis
    by (simp add: SanitizeNamespace_def SanitizeMetricName_def JoinNamespaceMetric_def replaceBar_def)
qed

theorem Sanitize_replaces_bar_witness:
  "SanitizeNamespace ''aa|aa'' ! 2 = CHR ''_'' \<and> SanitizeMetricName ''aa|aa'' ! 2 = CHR ''_'' \<and>
   SanitizeNamespace ''aa|aa'' ! 1 = CHR ''a'' \<and>
   CHR ''|'' \<notin> set ''aaaa'' \<and> SanitizeNamespace ''aaaa'' = ''aaaa'' \<and>
   SanitizeMetricName ''aaaa'' = ''aaaa''"
proof -
  have nobar: "CHR ''|'' \<notin> set ''aaaa''" by simp
  have len: "2 < length ''aa|aa''" "1 < length ''aa|aa''" by simp_all
  from Sanitize_replaces_bar [of "''aa|aa''"] len
  have a: "SanitizeNamespace ''aa|aa'' ! 2 = CHR ''_'' \<and> SanitizeMetricName ''aa|aa'' ! 2 = CHR ''_'' \<and>
           SanitizeNamespace ''aa|aa'' ! 1 = CHR ''a''"
    by simp
  from Sanitize_replaces_bar [of "''aaaa''"] nobar
  have b: "SanitizeNamespace ''aaaa'' = ''aaaa'' \<and> SanitizeMetricName ''aaaa'' = ''aaaa''"
    by blast
  from a b nobar show ?thesis by blast
qed

section \<open>Properties of segments\<close>

lemmas time_defs = OneDay_def OneHour_def OneSecond_def

lemma slot_contains:
  "Start (slotRange base (familySlot base t)) \<le> t \<and>
   t < Start (slotRange base (familySlot base t)) + OneHour \<and>
   End (slotRange base (familySlot base t)) = Start (slotRange base (familySlot base t)) + OneHour - 1"
proof -
  define x where "x = t - base"
  have split: "x = x div 3600000 * 3600000 + x mod 3600000" by simp
  have lo: "0 \<le> x mod 3600000" by simp
  have hi: "x mod 3600000 < 3600000" by simp
  from split lo have "x div 3600000 * 3600000 \<le> x" by linarith
  moreover from split hi have "x < x div 3600000 * 3600000 + 3600000" by linarith
  ultimately show ?thesis
    by (simp add: slotRange_def familySlot_def time_defs x_def)
qed

lemma slot_in_day:
  assumes "base \<le> t" "t < base + OneDay"
  shows "base \<le> Start (slotRange base (familySlot base t)) \<and>
         Start (slotRange base (familySlot base t)) + OneHour \<le> base + OneDay"
proof -
  have lo: "0 \<le> (t - base) div 3600000" using assms by simp
  have "(t - base) div 3600000 < 24"
    using assms by (simp add: time_defs div_less_iff_less_mult)
  then have hi: "(t - base) div 3600000 \<le> 23" by simp
  from lo hi show ?thesis
    by (simp add: slotRange_def familySlot_def time_defs)
qed

lemma call_result_cases:
  assumes inDay: "baseTime seg \<le> t" "t < baseTime seg + OneDay"
      and res: "fst (GetOrCreateDataFamily t seg) = Inr f"
  shows "families seg (familySlot (baseTime seg) t) = Some (FamilyValue f) \<or>
         familyTimeRange f = slotRange (baseTime seg) (familySlot (baseTime seg) t)"
  using inDay res
  by (auto simp: GetOrCreateDataFamily_def Let_def CreateFamily_def newDataFamily_def
        split: option.splits familyEntry.splits prod.splits sum.splits if_splits)

lemma returned_range:
  assumes ok: "segmentOK seg"
      and inDay: "baseTime seg \<le> t" "t < baseTime seg + OneDay"
      and res: "fst (GetOrCreateDataFamily t seg) = Inr f"
  shows "familyTimeRange f = slotRange (baseTime seg) (familySlot (baseTime seg) t)"
  using call_result_cases [OF inDay res] ok by (auto simp: segmentOK_def)

lemma call_succeeds:
  assumes inDay: "baseTime seg \<le> t" "t < baseTime seg + OneDay"
      and noStray: "\<forall>v. families seg (familySlot (baseTime seg) t) \<noteq> Some (StrayValue v)"
      and create: "createFamilyResult (kvStore seg) (formatInt (familySlot (baseTime seg) t)) = None"
  shows "\<exists>f. fst (GetOrCreateDataFamily t seg) = Inr f"
  using inDay noStray create
  by (auto simp: GetOrCreateDataFamily_def Let_def CreateFamily_def
        split: option.splits familyEntry.splits)

lemma call_out_of_day:
  assumes "t < baseTime seg \<or> baseTime seg + OneDay \<le> t"
  shows "GetOrCreateDataFamily t seg = (Inl (ErrOther ''timestamp not in segment''), seg)"
  using assms by (auto simp: GetOrCreateDataFamily_def)

lemma call_keeps_ok:
  assumes "segmentOK seg"
  shows "segmentOK (snd (GetOrCreateDataFamily t seg))"
  using assms
  by (auto simp: segmentOK_def GetOrCreateDataFamily_def Let_def CreateFamily_def newDataFamily_def
        split: option.splits familyEntry.splits)

lemma loadFamilies_ok:
  assumes "loadFamilies base names fams = Inr fams'"
      and "\<forall>slot f. fams slot = Some (FamilyValue f) \<longrightarrow> familyTimeRange f = slotRange base slot"
  shows "\<forall>slot f. fams' slot = Some (FamilyValue f) \<longrightarrow> familyTimeRange f = slotRange base slot"
  using assms
proof (induction names arbitrary: fams)
  case Nil
  then show ?case by simp
next
  case (Cons name names)
  show ?case
  proof (cases "Atoi name")
    case (Inl err)
    with Cons.prems(1) show ?thesis by simp
  next
    case (Inr slot)
    let ?fams = "fams(slot \<mapsto> FamilyValue (newDataFamily base slot name))"
    have rest: "loadFamilies base names ?fams = Inr fams'"
      using Cons.prems(1) Inr by simp
    have inv: "\<forall>slot' f. ?fams slot' = Some (FamilyValue f) \<longrightarrow>
                 familyTimeRange f = slotRange base slot'"
      using Cons.prems(2) by (simp add: newDataFamily_def)
    from rest inv show ?thesis by (rule Cons.IH)
  qed
qed

lemma newSegment_ok:
  assumes "newSegment newStore parseSegmentTime segmentName ival storePath = (Inr seg, st)"
  shows "segmentOK seg"
proof -
  from assms obtain st0 base fams where
    "loadFamilies base (ListFamilyNames st0) Map.empty = Inr fams"
    "seg = \<lparr>baseTime = base, interval = ival, kvStore = st0, families = fams\<rparr>"
    by (auto simp: newSegment_def split: sum.splits)
  then show ?thesis
    using loadFamilies_ok [of base "ListFamilyNames st0" Map.empty fams]
    by (simp add: segmentOK_def)
qed

lemmas segment_defs = GetOrCreateDataFamily_def CreateFamily_def newDataFamily_def slotRange_def
  familySlot_def formatInt_def digitChar_def seg20190904_def strayDataFamily_def emptyStore_def
  abcStore_def time_defs Let_def

lemma segmentOK_fixture: "segmentOK seg20190904"
  by (simp add: segmentOK_def seg20190904_def)

lemma first_family:
  "fst (GetOrCreateDataFamily 1567624248000 seg20190904)
     = Inr \<lparr>familyTimeRange = \<lparr>Start = 1567623600000, End = 1567627199999\<rparr>, family = ''19''\<rparr>"
  by (simp add: segment_defs decimal.simps)

text \<open>
  C5. On a segment whose families map is well formed, for every timestamp: when
  the timestamp lies within the segment's day, every family the call returns has
  the hour of the timestamp as its time range, from \<open>Start\<close> up to but not
  including \<open>Start + OneHour\<close>, the slot being computed from the timestamp minus
  the base time, and that hour lies within the day; the call does return a family
  unless the slot holds a stray value or the store fails to create the family.
  When the timestamp lies outside the day the call returns an error and the
  segment is as before: no family is created or stored.
\<close>

theorem GetOrCreateDataFamily_containment:
  assumes ok: "segmentOK seg"
  shows "(baseTime seg \<le> t \<and> t < baseTime seg + OneDay \<longrightarrow>
            (\<forall>f. fst (GetOrCreateDataFamily t seg) = Inr f \<longrightarrow>
               Start (familyTimeRange f) \<le> t \<and> t < Start (familyTimeRange f) + OneHour \<and>
               End (familyTimeRange f) = Start (familyTimeRange f) + OneHour - 1 \<and>
               Contains (familyTimeRange f) t \<and>
               baseTime seg \<le> Start (familyTimeRange f) \<and>
               Start (familyTimeRange f) + OneHour \<le> baseTime seg + OneDay) \<and>
            ((\<forall>v. families seg (familySlot (baseTime seg) t) \<noteq> Some (StrayValue v)) \<and>
              createFamilyResult (kvStore seg) (formatInt (familySlot (baseTime seg) t)) = None \<longrightarrow>
               (\<exists>f. fst (GetOrCreateDataFamily t seg) = Inr f)))
       \<and> (t < baseTime seg \<or> baseTime seg + OneDay \<le> t \<longrightarrow>
            (\<exists>e. fst (GetOrCreateDataFamily t seg) = Inl e) \<and>
            snd (GetOrCreateDataFamily t seg) = seg)"
proof (intro conjI impI allI)
  fix f
  assume inDay: "baseTime seg \<le> t \<and> t < baseTime seg + OneDay"
     and res: "fst (GetOrCreateDataFamily t seg) = Inr f"
  have r: "familyTimeRange f = slotRange (baseTime seg) (familySlot (baseTime seg) t)"
    using ok inDay res by (intro returned_range) simp_all
  note c = slot_contains [of "baseTime seg" t]
  note d = slot_in_day [of "baseTime seg" t]
  show "Start (familyTimeRange f) \<le> t" using r c by simp
  show "t < Start (familyTimeRange f) + OneHour" using r c by simp
  show "End (familyTimeRange f) = Start (familyTimeRange f) + OneHour - 1" using r c by simp
  show "Contains (familyTimeRange f) t" using r c by (simp add: Contains_def)
  show "baseTime seg \<le> Start (familyTimeRange f)" using r d inDay by simp
  show "Start (familyTimeRange f) + OneHour \<le> baseTime seg + OneDay" using r d inDay by simp
next
  assume inDay: "baseTime seg \<le> t \<and> t < baseTime seg + OneDay"
     and "(\<forall>v. families seg (familySlot (baseTime seg) t) \<noteq> Some (StrayValue v)) \<and>
          createFamilyResult (kvStore seg) (formatInt (familySlot (baseTime seg) t)) = None"
  then show "\<exists>f. fst (GetOrCreateDataFamily t seg) = Inr f"
    by (intro call_succeeds) simp_all
next
  assume out: "t < baseTime seg \<or> baseTime seg + OneDay \<le> t"
  show "\<exists>e. fst (GetOrCreateDataFamily t seg) = Inl e"
    by (simp add: call_out_of_day [OF out])
  show "snd (GetOrCreateDataFamily t seg) = seg"
    by (simp add: call_out_of_day [OF out])
qed

theorem GetOrCreateDataFamily_containment_witness:
  "segmentOK seg20190904 \<and>
   baseTime seg20190904 \<le> 1567624248000 \<and> 1567624248000 < baseTime seg20190904 + OneDay \<and>
   fst (GetOrCreateDataFamily 1567624248000 seg20190904)
     = Inr \<lparr>familyTimeRange = \<lparr>Start = 1567623600000, End = 1567627199999\<rparr>, family = ''19''\<rparr> \<and>
   Contains \<lparr>Start = 1567623600000, End = 1567627199999\<rparr> 1567624248000 \<and>
   segmentOK (snd (GetOrCreateDataFamily 1567624248000 seg20190904)) \<and>
   families (snd (GetOrCreateDataFamily 1567624248000 seg20190904)) 19 \<noteq> None \<and>
   fst (GetOrCreateDataFamily 1567625400000 (snd (GetOrCreateDataFamily 1567624248000 seg20190904)))
     = Inr \<lparr>familyTimeRange = \<lparr>Start = 1567623600000, End = 1567627199999\<rparr>, family = ''19''\<rparr> \<and>
   Contains \<lparr>Start = 1567623600000, End = 1567627199999\<rparr> 1567625400000 \<and>
   1567537848000 < baseTime seg20190904 \<and>
   (\<exists>e. fst (GetOrCreateDataFamily 1567537848000 seg20190904) = Inl e) \<and>
   snd (GetOrCreateDataFamily 1567537848000 seg20190904) = seg20190904"
proof -
  let ?seg1 = "snd (GetOrCreateDataFamily 1567624248000 seg20190904)"
  have inDay: "baseTime seg20190904 \<le> 1567624248000 \<and> 1567624248000 < baseTime seg20190904 + OneDay"
    by (simp add: seg20190904_def time_defs)
  have before: "1567537848000 < baseTime seg20190904"
    by (simp add: seg20190904_def)
  from GetOrCreateDataFamily_containment [OF segmentOK_fixture, of 1567624248000] inDay first_family
  have c: "Contains \<lparr>Start = 1567623600000, End = 1567627199999\<rparr> 1567624248000"
    by simp
  have ok1: "segmentOK ?seg1"
    using segmentOK_fixture by (rule call_keeps_ok)
  have stored: "families ?seg1 19 \<noteq> None"
    by (simp add: segment_defs decimal.simps)
  have inDay1: "baseTime ?seg1 \<le> 1567625400000 \<and> 1567625400000 < baseTime ?seg1 + OneDay"
    by (simp add: segment_defs decimal.simps)
  have again: "fst (GetOrCreateDataFamily 1567625400000 ?seg1)
     = Inr \<lparr>familyTimeRange = \<lparr>Start = 1567623600000, End = 1567627199999\<rparr>, family = ''19''\<rparr>"
    by (simp add: segment_defs decimal.simps)
  from GetOrCreateDataFamily_containment [OF ok1, of 1567625400000] inDay1 again
  have c1: "Contains \<lparr>Start = 1567623600000, End = 1567627199999\<rparr> 1567625400000"
    by simp
  from GetOrCreateDataFamily_containment [OF segmentOK_fixture, of 1567537848000] before
  have out: "(\<exists>e. fst (GetOrCreateDataFamily 1567537848000 seg20190904) = Inl e) \<and>
     snd (GetOrCreateDataFamily 1567537848000 seg20190904) = seg20190904"
    by blast
  from segmentOK_fixture inDay first_family c ok1 stored again c1 before out
  show ?thesis by blast
qed

text \<open>
  C6. For a timestamp within the day, when the families map holds a data family
  under the slot of the timestamp the call returns that family and changes
  nothing; when it holds a value that is not a data family the call returns no
  family but an error for which \<^verbatim>\<open>errors.Is(err, ErrNotFound)\<close> holds, and
  changes nothing.
\<close>

theorem GetOrCreateDataFamily_existing:
  assumes inDay: "baseTime seg \<le> t" "t < baseTime seg + OneDay"
  shows "(families seg (familySlot (baseTime seg) t) = Some (FamilyValue f) \<longrightarrow>
            GetOrCreateDataFamily t seg = (Inr f, seg))
       \<and> (families seg (familySlot (baseTime seg) t) = Some (StrayValue v) \<longrightarrow>
            (\<exists>e. GetOrCreateDataFamily t seg = (Inl e, seg) \<and> errorsIs e ErrNotFound))"
  using inDay by (auto simp: GetOrCreateDataFamily_def Let_def)

theorem GetOrCreateDataFamily_existing_witness:
  "baseTime strayDataFamily \<le> 1567638648000 \<and> 1567638648000 < baseTime strayDataFamily + OneDay \<and>
   families strayDataFamily (familySlot (baseTime strayDataFamily) 1567638648000)
     = Some (StrayValue ''err data family'') \<and>
   (\<exists>e. GetOrCreateDataFamily 1567638648000 strayDataFamily = (Inl e, strayDataFamily) \<and>
        errorsIs e ErrNotFound) \<and>
   families (strayDataFamily\<lparr>families := [19 \<mapsto> FamilyValue (newDataFamily 1567555200000 19 ''19'')]\<rparr>)
       (familySlot 1567555200000 1567624248000)
     = Some (FamilyValue (newDataFamily 1567555200000 19 ''19'')) \<and>
   fst (GetOrCreateDataFamily 1567624248000
      (strayDataFamily\<lparr>families := [19 \<mapsto> FamilyValue (newDataFamily 1567555200000 19 ''19'')]\<rparr>))
     = Inr (newDataFamily 1567555200000 19 ''19'')"
proof -
  let ?seg = "strayDataFamily\<lparr>families := [19 \<mapsto> FamilyValue (newDataFamily 1567555200000 19 ''19'')]\<rparr>"
  have lo: "baseTime strayDataFamily \<le> 1567638648000"
    and hi: "1567638648000 < baseTime strayDataFamily + OneDay"
    by (simp_all add: strayDataFamily_def seg20190904_def time_defs)
  have stray: "families strayDataFamily (familySlot (baseTime strayDataFamily) 1567638648000)
     = Some (StrayValue ''err data family'')"
    by (simp add: strayDataFamily_def seg20190904_def familySlot_def time_defs)
  have lo2: "baseTime ?seg \<le> 1567624248000" and hi2: "1567624248000 < baseTime ?seg + OneDay"
    by (simp_all add: strayDataFamily_def seg20190904_def time_defs)
  have base2: "baseTime ?seg = 1567555200000"
    by (simp add: strayDataFamily_def seg20190904_def)
  have fam: "families ?seg (familySlot 1567555200000 1567624248000)
     = Some (FamilyValue (newDataFamily 1567555200000 19 ''19''))"
    by (simp add: familySlot_def time_defs)
  from GetOrCreateDataFamily_existing [OF lo hi, of _ "''err data family''"] stray
  have a: "\<exists>e. GetOrCreateDataFamily 1567638648000 strayDataFamily = (Inl e, strayDataFamily) \<and>
        errorsIs e ErrNotFound"
    by blast
  from GetOrCreateDataFamily_existing [OF lo2 hi2, of "newDataFamily 1567555200000 19 ''19''"] fam base2
  have b: "fst (GetOrCreateDataFamily 1567624248000 ?seg) = Inr (newDataFamily 1567555200000 19 ''19'')"
    by simp
  from lo hi stray a fam b show ?thesis by blast
qed





end
